theory Spec2Isabelle
  imports Complex_Main
begin

text \<open>
  Jotter: freehand strokes on a grid canvas are classified as geometric shapes when the
  mouse is released, and recognized strokes are redrawn cleanly. The repository holds
  successive versions of the web canvas. Modelled here are
  \<^item> the geometry helpers and the heuristic predicates of the web canvas in
    \<open>GridCanvas.js\<close> (the version with corner detection and the variance test), and the
    reduced variants of \<open>isRectangle\<close> and \<open>isCircle\<close> that the OpenCV canvases keep;
  \<^item> the contour classifier, the orchestrator \<open>detectShape\<close>, the drawing functions and
    the mouse handlers of the final canvas (second half of \<open>part_003\<close>);
  \<^item> the orchestrator of the canvas before it (\<open>part_002\<close>), which has a heuristic
    fallback.
\<close>

section \<open>Numbers\<close>

text \<open>
  The canvas code computes with JavaScript numbers. Coordinates come from mouse events and
  are finite; they are modelled as reals, so rounding and overflow are left out. The one
  place where a special value can arise from finite operands is a division whose
  denominator is zero: JavaScript raises nothing there and yields \<open>Infinity\<close>,
  \<open>-Infinity\<close> or \<open>NaN\<close>. A quotient is therefore a \<open>jsnum\<close>, and the
  comparisons of a quotient against a threshold follow IEEE 754: every comparison with
  \<open>NaN\<close> is false. None of the denominators below can be a negative zero (they are sums
  of square roots, differences \<open>max - min\<close>, squares and lengths), so the sign of zero
  is not modelled.
\<close>

datatype jsnum = Fin real | PosInf | NegInf | NaN

definition jsdiv :: "real \<Rightarrow> real \<Rightarrow> jsnum" where
  "jsdiv a b =
     (if b \<noteq> 0 then Fin (a / b)
      else if 0 < a then PosInf
      else if a < 0 then NegInf
      else NaN)"

fun jsgt :: "jsnum \<Rightarrow> real \<Rightarrow> bool" where
  "jsgt (Fin v) c = (c < v)"
| "jsgt PosInf c = True"
| "jsgt NegInf c = False"
| "jsgt NaN c = False"

fun jslt :: "jsnum \<Rightarrow> real \<Rightarrow> bool" where
  "jslt (Fin v) c = (v < c)"
| "jslt PosInf c = False"
| "jslt NegInf c = True"
| "jslt NaN c = False"

text \<open>
  \<open>Math.atan2(y, x)\<close> on finite arguments, by the usual case analysis over the
  quadrants; the result lies in \<open>(-\<pi>, \<pi>]\<close>.
\<close>

definition atan2 :: "real \<Rightarrow> real \<Rightarrow> real" where
  "atan2 dy dx =
     (if 0 < dx then arctan (dy / dx)
      else if dx < 0 then (if 0 \<le> dy then arctan (dy / dx) + pi else arctan (dy / dx) - pi)
      else if 0 < dy then pi / 2
      else if dy < 0 then - (pi / 2)
      else 0)"

section \<open>Points, strokes and the geometry helpers\<close>

datatype point = Point (px: real) (py: real)

type_synonym stroke = "point list"

definition THRESHOLD :: real where
  "THRESHOLD = 10"

definition GRID_SIZE :: real where
  "GRID_SIZE = 40"

definition distance :: "point \<Rightarrow> point \<Rightarrow> real" where
  "distance point1 point2 =
     sqrt ((px point2 - px point1)\<^sup>2 + (py point2 - py point1)\<^sup>2)"

text \<open>
  \<open>calculateTotalDistance\<close> loops \<open>i\<close> from 1 to \<open>stroke.length - 1\<close> and adds the
  distance between \<open>stroke[i-1]\<close> and \<open>stroke[i]\<close>; strokes of fewer than two points
  give 0.
\<close>

fun calculateTotalDistance :: "stroke \<Rightarrow> real" where
  "calculateTotalDistance (p # q # ps) = distance p q + calculateTotalDistance (q # ps)"
| "calculateTotalDistance ps = 0"

record bounds =
  minX :: real
  maxX :: real
  minY :: real
  maxY :: real
  width :: real
  height :: real

text \<open>
  \<open>getBoundingBox\<close> spreads the coordinates into \<open>Math.min\<close> and \<open>Math.max\<close>. Every
  caller below reaches it only after a length test, so the coordinate lists are not empty
  there and \<open>Min\<close>, \<open>Max\<close> over their elements are what the code computes.
\<close>

definition getBoundingBox :: "stroke \<Rightarrow> bounds" where
  "getBoundingBox stroke =
     (let xs = map px stroke; ys = map py stroke in
      \<lparr> minX = Min (set xs), maxX = Max (set xs),
        minY = Min (set ys), maxY = Max (set ys),
        width = Max (set xs) - Min (set xs),
        height = Max (set ys) - Min (set ys) \<rparr>)"

text \<open>
  \<open>calculateCenter\<close>, \<open>average\<close> and \<open>calculateVariance\<close> divide by a length. The
  code calls them on strokes of at least six points, and the statements below use them on
  non-empty strokes only, so the division is an ordinary one.
\<close>

definition calculateCenter :: "stroke \<Rightarrow> point" where
  "calculateCenter stroke =
     Point (sum_list (map px stroke) / real (length stroke))
           (sum_list (map py stroke) / real (length stroke))"

definition calculateVariance :: "real list \<Rightarrow> real" where
  "calculateVariance values =
     (let mean = sum_list values / real (length values);
          squaredDiffs = map (\<lambda>val. (val - mean)\<^sup>2) values
      in sum_list squaredDiffs / real (length values))"

definition average :: "real list \<Rightarrow> real" where
  "average values = sum_list values / real (length values)"

text \<open>
  \<open>findCorners\<close> visits every interior index \<open>i\<close> (from 1 to \<open>stroke.length - 2\<close>) and
  keeps \<open>stroke[i]\<close> when the directions of the incoming and the outgoing segment differ
  by more than 30 degrees.
\<close>

fun findCorners :: "stroke \<Rightarrow> point list" where
  "findCorners (prv # cur # nxt # ps) =
     (let angle1 = atan2 (py cur - py prv) (px cur - px prv);
          angle2 = atan2 (py nxt - py cur) (px nxt - px cur);
          angleDiff = \<bar>angle1 - angle2\<bar>
      in (if angleDiff > pi / 6 then [cur] else []) @ findCorners (cur # nxt # ps))"
| "findCorners ps = []"

section \<open>The heuristic predicates\<close>

text \<open>
  \<open>stroke[0]\<close> and \<open>stroke[stroke.length-1]\<close> are read after a length test in every
  predicate, so they are \<open>hd\<close> and \<open>last\<close> of a non-empty list.
\<close>

definition isLine :: "stroke \<Rightarrow> bool" where
  "isLine stroke =
     (if length stroke < 2 then False
      else
        let straightDistance = distance (hd stroke) (last stroke);
            totalDistance = calculateTotalDistance stroke
        in if totalDistance = 0 then False
           else let ratio = jsdiv straightDistance totalDistance in jsgt ratio 0.9)"

text \<open>The web canvas of \<open>GridCanvas.js\<close>: rectangles need corners, circles a low variance.\<close>

definition isRectangle :: "stroke \<Rightarrow> bool" where
  "isRectangle stroke =
     (if length stroke < 4 then False
      else
        let startEndDistance = distance (hd stroke) (last stroke);
            isClosed = (startEndDistance < THRESHOLD)
        in if \<not> isClosed then False
           else
             let bnds = getBoundingBox stroke;
                 aspectRatio = jsdiv (width bnds) (height bnds);
                 corners = findCorners stroke;
                 hasCorners = (length corners \<ge> 2);
                 reasonableAspectRatio = (jsgt aspectRatio 0.2 \<and> jslt aspectRatio 5.0)
             in isClosed \<and> hasCorners \<and> reasonableAspectRatio)"

definition isCircle :: "stroke \<Rightarrow> bool" where
  "isCircle stroke =
     (if length stroke < 6 then False
      else
        let startEndDistance = distance (hd stroke) (last stroke);
            isClosed = (startEndDistance < THRESHOLD)
        in if \<not> isClosed then False
           else
             let center = calculateCenter stroke;
                 distances = map (\<lambda>p. distance center p) stroke;
                 averageRadius = average distances
             in if averageRadius = 0 then False
                else
                  let variance = calculateVariance distances;
                      circularity = jsdiv variance averageRadius;
                      bnds = getBoundingBox stroke;
                      aspectRatio = jsdiv (width bnds) (height bnds);
                      isRoughlySquare = (jsgt aspectRatio 0.5 \<and> jslt aspectRatio 2.0);
                      isCircular = jslt circularity 0.5
                  in isClosed \<and> isCircular \<and> isRoughlySquare)"

text \<open>
  The canvases that call OpenCV keep two of the predicates "for fallback", without the
  corner count and without the variance test.
\<close>

definition isRectangle_fallback :: "stroke \<Rightarrow> bool" where
  "isRectangle_fallback stroke =
     (if length stroke < 4 then False
      else
        let startEndDistance = distance (hd stroke) (last stroke);
            isClosed = (startEndDistance < THRESHOLD)
        in if \<not> isClosed then False
           else
             let bnds = getBoundingBox stroke;
                 aspectRatio = jsdiv (width bnds) (height bnds)
             in isClosed \<and> jsgt aspectRatio 0.2 \<and> jslt aspectRatio 5.0)"

definition isCircle_fallback :: "stroke \<Rightarrow> bool" where
  "isCircle_fallback stroke =
     (if length stroke < 6 then False
      else
        let startEndDistance = distance (hd stroke) (last stroke);
            isClosed = (startEndDistance < THRESHOLD)
        in if \<not> isClosed then False
           else
             let center = calculateCenter stroke;
                 distances = map (\<lambda>p. distance center p) stroke;
                 averageRadius = average distances
             in if averageRadius = 0 then False
                else
                  let bnds = getBoundingBox stroke;
                      aspectRatio = jsdiv (width bnds) (height bnds);
                      isRoughlySquare = (jsgt aspectRatio 0.5 \<and> jslt aspectRatio 2.0)
                  in isClosed \<and> isRoughlySquare)"

section \<open>The divisions of the predicates\<close>

text \<open>
  The divisions each predicate of \<open>GridCanvas.js\<close> executes on a stroke, in the order of
  execution and along the same branches as the predicate: the name of the variable or
  field the quotient goes to, and the denominator. The helpers \<open>calculateCenter\<close>,
  \<open>average\<close> and \<open>calculateVariance\<close> divide by the length of their argument.
\<close>

definition isLine_divisions :: "stroke \<Rightarrow> (string \<times> real) list" where
  "isLine_divisions stroke =
     (if length stroke < 2 then []
      else
        let totalDistance = calculateTotalDistance stroke
        in if totalDistance = 0 then [] else [(''ratio'', totalDistance)])"

definition isRectangle_divisions :: "stroke \<Rightarrow> (string \<times> real) list" where
  "isRectangle_divisions stroke =
     (if length stroke < 4 then []
      else if \<not> distance (hd stroke) (last stroke) < THRESHOLD then []
      else [(''aspectRatio'', height (getBoundingBox stroke))])"

definition isCircle_divisions :: "stroke \<Rightarrow> (string \<times> real) list" where
  "isCircle_divisions stroke =
     (if length stroke < 6 then []
      else if \<not> distance (hd stroke) (last stroke) < THRESHOLD then []
      else
        let center = calculateCenter stroke;
            distances = map (\<lambda>p. distance center p) stroke;
            averageRadius = average distances
        in [(''center.x'', real (length stroke)), (''center.y'', real (length stroke)),
            (''averageRadius'', real (length distances))]
           @ (if averageRadius = 0 then []
              else [(''mean'', real (length distances)), (''variance'', real (length distances)),
                    (''circularity'', averageRadius),
                    (''aspectRatio'', height (getBoundingBox stroke))]))"

section \<open>Shapes and the contour classifier\<close>

text \<open>
  The shape objects of the OpenCV canvases: \<open>{type: 'line', stroke}\<close>,
  \<open>{type: 'triangle', vertices}\<close>, \<open>{type: 'rectangle', vertices, boundingRect}\<close>,
  \<open>{type: 'circle', center, radius}\<close>, \<open>{type: 'freehand'}\<close> and, inside the contour
  classifier only, \<open>{type: 'unknown'}\<close>. The fallback of \<open>part_002\<close> also builds
  \<open>{type: 'rectangle', boundingRect}\<close>, a rectangle without vertices.
\<close>

datatype cvRect = CvRect real real real real

datatype shape =
    Line stroke
  | Triangle "point list"
  | Rectangle "point list" cvRect
  | Circle point real
  | FallbackRectangle bounds
  | Freehand
  | Unknown

fun typeOf :: "shape \<Rightarrow> string" where
  "typeOf (Line s) = ''line''"
| "typeOf (Triangle vs) = ''triangle''"
| "typeOf (Rectangle vs r) = ''rectangle''"
| "typeOf (Circle c r) = ''circle''"
| "typeOf (FallbackRectangle b) = ''rectangle''"
| "typeOf Freehand = ''freehand''"
| "typeOf Unknown = ''unknown''"

text \<open>
  What the code takes from outside: the window size, the scratch canvas on which
  \<open>detectShape\<close> paints the stroke, and OpenCV. \<open>'i\<close> is the painted canvas, \<open>'c\<close> a
  contour. \<open>tempCanvas\<close> is \<open>None\<close> when a statement of \<open>detectShape\<close>'s \<open>try\<close>
  block throws before \<open>detectShapes\<close> is called (a DOM call, or \<open>stroke[0]\<close> on an empty
  stroke, which the release handler never passes). \<open>findContours\<close> stands for \<open>canvasToMat\<close>, \<open>cvtColor\<close>, \<open>threshold\<close> and
  \<open>cv.findContours\<close>; it is \<open>None\<close> when anything inside the \<open>try\<close> block of
  \<open>detectShapes\<close> throws, which is also what happens while the \<open>cv\<close> global does not
  exist. A throw at any point of that block has the same outcome (the \<open>catch\<close> returns the
  empty list), so the measurement functions are taken to return whenever \<open>findContours\<close>
  does.
\<close>

record ('i, 'c) collaborators =
  windowWidth :: real
  windowHeight :: real
  tempCanvas :: "stroke \<Rightarrow> 'i option"
  findContours :: "'i \<Rightarrow> 'c list option"
  arcLength :: "'c \<Rightarrow> real"
  approxPolyDP :: "'c \<Rightarrow> real \<Rightarrow> point list"
  contourArea :: "'c \<Rightarrow> real"
  boundingRect :: "'c \<Rightarrow> cvRect"
  minEnclosingCircle :: "'c \<Rightarrow> point \<times> real"

text \<open>\<open>getVertices\<close> copies the rows of the approximated polygon, one point per row.\<close>

definition getVertices :: "point list \<Rightarrow> point list" where
  "getVertices approx = map (\<lambda>i. Point (px (approx ! i)) (py (approx ! i))) [0..<length approx]"

definition classifyShape :: "('i, 'c) collaborators \<Rightarrow> 'c \<Rightarrow> shape" where
  "classifyShape cv contour =
     (let perimeter = arcLength cv contour;
          approx = approxPolyDP cv contour (0.02 * perimeter);
          verticesCount = length approx;
          area = contourArea cv contour;
          bRect = boundingRect cv contour
      in if verticesCount = 3 then Triangle (getVertices approx)
         else if verticesCount = 4 then Rectangle (getVertices approx) bRect
         else
           let circularity = jsdiv (4 * pi * area) (perimeter * perimeter)
           in if jsgt circularity 0.85
              then (case minEnclosingCircle cv contour of (center, radius) \<Rightarrow> Circle center radius)
              else Unknown)"

definition detectShapes :: "('i, 'c) collaborators \<Rightarrow> 'i \<Rightarrow> shape list" where
  "detectShapes cv canvas =
     (case findContours cv canvas of
        None \<Rightarrow> []
      | Some contours \<Rightarrow> filter (\<lambda>s. typeOf s \<noteq> ''unknown'') (map (classifyShape cv) contours))"

section \<open>The orchestrator\<close>

text \<open>
  The classifier functions \<open>detectShape\<close> calls, in the order of the calls; the final canvas
  returns this list beside the shape, so that a theorem can say which classifiers ran.
\<close>

datatype classifier = CallIsLine | CallDetectShapes

text \<open>
  The final canvas (second half of \<open>part_003\<close>). It tests \<open>opencvLoaded\<close> only to write
  a log line, so the flag is no argument here. Both \<open>catch\<close> paths and the empty result
  give \<open>{type: 'freehand'}\<close>.
\<close>

definition detectShape :: "('i, 'c) collaborators \<Rightarrow> stroke \<Rightarrow> shape \<times> classifier list" where
  "detectShape cv stroke =
     (if isLine stroke then (Line stroke, [CallIsLine])
      else
        case tempCanvas cv stroke of
          None \<Rightarrow> (Freehand, [CallIsLine])
        | Some canvas \<Rightarrow>
            let shapes = detectShapes cv canvas
            in if length shapes > 0 then (hd shapes, [CallIsLine, CallDetectShapes])
               else (Freehand, [CallIsLine, CallDetectShapes]))"

text \<open>
  The canvas of \<open>part_002\<close>: the same orchestrator with a heuristic fallback, taken when
  \<open>opencvLoaded\<close> is false or when the scratch canvas throws.
\<close>

definition detectShapeFallback :: "stroke \<Rightarrow> shape" where
  "detectShapeFallback stroke =
     (if isRectangle_fallback stroke then FallbackRectangle (getBoundingBox stroke)
      else if isCircle_fallback stroke then
        (let center = calculateCenter stroke;
             radius = average (map (\<lambda>p. distance center p) stroke)
         in Circle center radius)
      else Freehand)"

definition detectShape_part002 :: "('i, 'c) collaborators \<Rightarrow> bool \<Rightarrow> stroke \<Rightarrow> shape" where
  "detectShape_part002 cv opencvLoaded stroke =
     (if isLine stroke then Line stroke
      else if \<not> opencvLoaded then detectShapeFallback stroke
      else
        case tempCanvas cv stroke of
          None \<Rightarrow> detectShapeFallback stroke
        | Some canvas \<Rightarrow>
            let shapes = detectShapes cv canvas
            in if length shapes > 0 then hd shapes else Freehand)"

section \<open>Drawing and the mouse handlers\<close>

text \<open>The calls the code makes on the 2D context of the visible canvas.\<close>

datatype ctx_call =
    StrokeStyle string
  | LineWidth real
  | LineCap string
  | LineJoin string
  | BeginPath
  | MoveTo real real
  | LineTo real real
  | ClosePath
  | Arc real real real real real
  | Stroke
  | ClearRect real real real real

function verticalLines :: "real \<Rightarrow> real \<Rightarrow> real \<Rightarrow> ctx_call list" where
  "verticalLines x0 w h =
     (if x0 \<le> w
      then [BeginPath, MoveTo x0 0, LineTo x0 h, Stroke] @ verticalLines (x0 + GRID_SIZE) w h
      else [])"
  by pat_completeness auto
termination
  by (relation "measure (\<lambda>(x0, w, h). nat \<lceil>w - x0 + 1\<rceil>)") (auto simp: GRID_SIZE_def, linarith)

function horizontalLines :: "real \<Rightarrow> real \<Rightarrow> real \<Rightarrow> ctx_call list" where
  "horizontalLines y0 w h =
     (if y0 \<le> h
      then [BeginPath, MoveTo 0 y0, LineTo w y0, Stroke] @ horizontalLines (y0 + GRID_SIZE) w h
      else [])"
  by pat_completeness auto
termination
  by (relation "measure (\<lambda>(y0, w, h). nat \<lceil>h - y0 + 1\<rceil>)") (auto simp: GRID_SIZE_def, linarith)

declare verticalLines.simps [simp del]

declare horizontalLines.simps [simp del]

definition drawGrid :: "real \<Rightarrow> real \<Rightarrow> ctx_call list" where
  "drawGrid w h =
     [StrokeStyle ''#f0f0f0'', LineWidth 0.5]
     @ verticalLines 0 w h
     @ horizontalLines 0 w h
     @ [StrokeStyle ''#000000'', LineWidth 2]"

text \<open>
  \<open>drawCleanShape\<close>. Reading \<open>shape.vertices[0].x\<close> from a shape without vertices, or
  \<open>shape.stroke[0].x\<close> from an empty stroke, throws a TypeError: the result is then
  \<open>None\<close>. A type that no \<open>case\<close> of the \<open>switch\<close> names draws an empty path.
  \<open>shapePath\<close> is the \<open>switch\<close> statement, \<open>polygonPath\<close> its loop over the vertices.
\<close>

definition polygonPath :: "point list \<Rightarrow> ctx_call list option" where
  "polygonPath vertices =
     (case vertices of
        [] \<Rightarrow> None
      | v # vs \<Rightarrow> Some (MoveTo (px v) (py v) # map (\<lambda>u. LineTo (px u) (py u)) vs @ [ClosePath]))"

fun shapePath :: "shape \<Rightarrow> ctx_call list option" where
  "shapePath (Line s) =
     (if s = [] then None
      else Some [MoveTo (px (s ! 0)) (py (s ! 0)),
                 LineTo (px (s ! (length s - 1))) (py (s ! (length s - 1)))])"
| "shapePath (Rectangle vs r) = polygonPath vs"
| "shapePath (FallbackRectangle b) = None"
| "shapePath (Circle c r) = Some [Arc (px c) (py c) r 0 (2 * pi)]"
| "shapePath (Triangle vs) = polygonPath vs"
| "shapePath Freehand = Some []"
| "shapePath Unknown = Some []"

definition drawCleanShape :: "shape \<Rightarrow> ctx_call list option" where
  "drawCleanShape shape =
     (case shapePath shape of
        None \<Rightarrow> None
      | Some path \<Rightarrow>
          Some ([StrokeStyle ''#ff0000'', LineWidth 3, BeginPath] @ path
                @ [Stroke, StrokeStyle ''#000000'', LineWidth 2]))"

text \<open>
  \<open>drawRecognizedShape\<close>: clear, grid, every shape of \<open>recognizedShapes\<close>, the new shape.
  A throw of \<open>drawCleanShape\<close> leaves the function (and the handler) at once.
\<close>

definition drawRecognizedShape ::
  "real \<Rightarrow> real \<Rightarrow> shape list \<Rightarrow> shape \<Rightarrow> ctx_call list option" where
  "drawRecognizedShape w h recognized newShape =
     (case those (map drawCleanShape recognized) of
        None \<Rightarrow> None
      | Some redrawn \<Rightarrow>
          (case drawCleanShape newShape of
             None \<Rightarrow> None
           | Some fresh \<Rightarrow> Some ([ClearRect 0 0 w h] @ drawGrid w h @ concat redrawn @ fresh)))"

text \<open>
  The state of the component: its React state, the calls made so far on the visible canvas
  (\<open>drawn\<close>) and the classifier functions called so far (\<open>consulted\<close>).
\<close>

record webCanvas =
  isDrawing :: bool
  currentStroke :: stroke
  recognizedShapes :: "shape list"
  drawn :: "ctx_call list"
  consulted :: "classifier list"

definition handleMouseDown :: "webCanvas \<Rightarrow> point \<Rightarrow> webCanvas" where
  "handleMouseDown st pos =
     st\<lparr> isDrawing := True, currentStroke := [pos],
         drawn := drawn st @ [BeginPath, MoveTo (px pos) (py pos)] \<rparr>"

definition handleMouseMove :: "webCanvas \<Rightarrow> point \<Rightarrow> webCanvas" where
  "handleMouseMove st pos =
     (if \<not> isDrawing st then st
      else st\<lparr> currentStroke := currentStroke st @ [pos],
               drawn := drawn st @ [LineTo (px pos) (py pos), Stroke] \<rparr>)"

text \<open>\<open>handleMouseUp\<close> is \<open>None\<close> when the handler is left by an exception.\<close>

definition handleMouseUp :: "('i, 'c) collaborators \<Rightarrow> webCanvas \<Rightarrow> webCanvas option" where
  "handleMouseUp cv st =
     (if isDrawing st \<and> length (currentStroke st) > 1 then
        (case detectShape cv (currentStroke st) of
           (detectedShape, calls) \<Rightarrow>
             if typeOf detectedShape \<noteq> ''freehand'' then
               (case drawRecognizedShape (windowWidth cv) (windowHeight cv)
                       (recognizedShapes st) detectedShape of
                  None \<Rightarrow> None
                | Some rendering \<Rightarrow>
                    Some (st\<lparr> drawn := drawn st @ rendering,
                              recognizedShapes := recognizedShapes st @ [detectedShape],
                              consulted := consulted st @ calls,
                              isDrawing := False, currentStroke := [] \<rparr>))
             else Some (st\<lparr> consulted := consulted st @ calls,
                             isDrawing := False, currentStroke := [] \<rparr>))
      else Some (st\<lparr> isDrawing := False, currentStroke := [] \<rparr>))"

text \<open>
  A completed stroke is one press, any number of moves and one release. \<open>strokeOf\<close> is the
  point sequence the gesture leaves in \<open>currentStroke\<close>.
\<close>

datatype gesture = Gesture point "point list"

fun strokeOf :: "gesture \<Rightarrow> stroke" where
  "strokeOf (Gesture p ps) = p # ps"

fun runGesture :: "('i, 'c) collaborators \<Rightarrow> webCanvas \<Rightarrow> gesture \<Rightarrow> webCanvas option" where
  "runGesture cv st (Gesture p ps) =
     handleMouseUp cv (foldl handleMouseMove (handleMouseDown st p) ps)"

fun runGestures :: "('i, 'c) collaborators \<Rightarrow> webCanvas \<Rightarrow> gesture list \<Rightarrow> webCanvas option" where
  "runGestures cv st [] = Some st"
| "runGestures cv st (g # gs) =
     (case runGesture cv st g of None \<Rightarrow> None | Some st' \<Rightarrow> runGestures cv st' gs)"

text \<open>
  The component after mounting: empty React state, and on the canvas the context set up and
  the grid drawn by the effect hook.
\<close>

definition initialCanvas :: "('i, 'c) collaborators \<Rightarrow> webCanvas" where
  "initialCanvas cv =
     \<lparr> isDrawing = False, currentStroke = [], recognizedShapes = [],
       drawn = [StrokeStyle ''#000000'', LineWidth 2, LineCap ''round'', LineJoin ''round'']
               @ drawGrid (windowWidth cv) (windowHeight cv),
       consulted = [] \<rparr>"

text \<open>
  A gesture is recognized when its stroke reaches \<open>detectShape\<close> (more than one point) and
  the detected type is not \<open>'freehand'\<close>. \<open>ink\<close> is the rough trail the press and the
  moves paint while the stroke is drawn.
\<close>

definition recognized :: "('i, 'c) collaborators \<Rightarrow> gesture \<Rightarrow> bool" where
  "recognized cv g =
     (1 < length (strokeOf g) \<and> typeOf (fst (detectShape cv (strokeOf g))) \<noteq> ''freehand'')"

fun ink :: "gesture \<Rightarrow> ctx_call list" where
  "ink (Gesture p ps) =
     [BeginPath, MoveTo (px p) (py p)] @ concat (map (\<lambda>q. [LineTo (px q) (py q), Stroke]) ps)"

text \<open>
  The invariant of the list of recognized shapes: every entry can be drawn again without
  an exception, and no entry is freehand.
\<close>

definition ledgerOk :: "shape list \<Rightarrow> bool" where
  "ledgerOk shs =
     (list_all (\<lambda>sh. drawCleanShape sh \<noteq> None) shs
      \<and> list_all (\<lambda>sh. typeOf sh \<noteq> ''freehand'') shs)"

section \<open>Concrete strokes and collaborators\<close>

text \<open>
  \<open>ring\<close>: six samples on the unit circle that end where they start. \<open>star5\<close>: five
  samples, four on the unit circle and the last at their centre. \<open>flatLine\<close>: a straight
  horizontal stroke. \<open>flatLoop\<close>: a horizontal stroke that comes back to its start.
  \<open>nearSquare\<close> is the near-closed square of the specification, \<open>spike\<close> a closed
  stroke that runs along a diagonal and back. The three gestures draw \<open>flatLine\<close>,
  \<open>ring\<close> and a single point.
\<close>

definition ring :: stroke where
  "ring = [Point 1 0, Point 0 1, Point (-1) 0, Point (-1) 0, Point 0 (-1), Point 1 0]"

definition star5 :: stroke where
  "star5 = [Point 1 0, Point 0 1, Point (-1) 0, Point 0 (-1), Point 0 0]"

definition flatLine :: stroke where
  "flatLine = [Point 0 0, Point 1 0]"

definition flatLoop :: stroke where
  "flatLoop = [Point 0 0, Point 5 0, Point 3 0, Point 0 0]"

definition nearSquare :: stroke where
  "nearSquare = [Point 0 0, Point 50 0, Point 50 50, Point 0 50, Point 0 2]"

definition spike :: stroke where
  "spike = [Point 0 0, Point 1 1, Point 2 2, Point 0 0]"

definition lineGesture :: gesture where
  "lineGesture = Gesture (Point 0 0) [Point 1 0]"

definition ringGesture :: gesture where
  "ringGesture =
     Gesture (Point 1 0) [Point 0 1, Point (-1) 0, Point (-1) 0, Point 0 (-1), Point 1 0]"

definition dotGesture :: gesture where
  "dotGesture = Gesture (Point 3 4) []"

text \<open>
  \<open>unavailable\<close>: the scratch canvas works, OpenCV is not loaded, so every call into it
  throws. \<open>demoCv\<close>: a loaded OpenCV that finds one contour per canvas; contour 0 is
  approximated by three vertices, contour 1 by four, contour 2 is a disc of radius 1 and
  contour 3 a thin sliver.
\<close>

definition unavailable :: "(unit, nat) collaborators" where
  "unavailable =
     \<lparr> windowWidth = 800, windowHeight = 600,
       tempCanvas = (\<lambda>s. Some ()),
       findContours = (\<lambda>i. None),
       arcLength = (\<lambda>c. 0),
       approxPolyDP = (\<lambda>c e. []),
       contourArea = (\<lambda>c. 0),
       boundingRect = (\<lambda>c. CvRect 0 0 0 0),
       minEnclosingCircle = (\<lambda>c. (Point 0 0, 0)) \<rparr>"

definition demoCv :: "(nat, nat) collaborators" where
  "demoCv =
     \<lparr> windowWidth = 800, windowHeight = 600,
       tempCanvas = (\<lambda>s. Some (length s)),
       findContours = (\<lambda>i. Some [i]),
       arcLength = (\<lambda>c. if c = 2 then 2 * pi else 12),
       approxPolyDP = (\<lambda>c e.
          if c = 0 then [Point 0 0, Point 4 0, Point 0 3]
          else if c = 1 then [Point 0 0, Point 3 0, Point 3 3, Point 0 3]
          else [Point 1 0, Point 0 1, Point (-1) 0, Point 0 (-1), Point 1 1]),
       contourArea = (\<lambda>c. if c = 2 then pi else 1),
       boundingRect = (\<lambda>c. CvRect 0 0 3 3),
       minEnclosingCircle = (\<lambda>c. (Point 0 0, 1)) \<rparr>"

section \<open>Facts about the numbers and the geometry\<close>

lemma jslt_jsdiv_zero_nonneg: "0 \<le> a \<Longrightarrow> \<not> jslt (jsdiv a 0) c"
  by (simp add: jsdiv_def)

lemma distance_nonneg: "0 \<le> distance p q"
  by (simp add: distance_def)

lemma distance_zero_iff: "distance p q = 0 \<longleftrightarrow> p = q"
proof -
  have "distance p q = 0 \<longleftrightarrow> (px q - px p)\<^sup>2 + (py q - py p)\<^sup>2 = 0"
    by (simp add: distance_def)
  also have "\<dots> \<longleftrightarrow> px q = px p \<and> py q = py p"
    by (simp add: sum_power2_eq_zero_iff)
  also have "\<dots> \<longleftrightarrow> p = q"
    by (cases p, cases q) auto
  finally show ?thesis .
qed

lemma calculateTotalDistance_nonneg: "0 \<le> calculateTotalDistance s"
  by (induction s rule: calculateTotalDistance.induct) (simp_all add: distance_nonneg)

lemma calculateVariance_nonneg: "0 \<le> calculateVariance vs"
  by (auto simp: calculateVariance_def Let_def intro!: divide_nonneg_nonneg sum_list_nonneg)

lemma findCorners_length: "length (findCorners s) \<le> length s - 2"
proof (induction s rule: findCorners.induct)
  case (1 prv cur nxt ps)
  from "1.IH" [OF refl refl refl] show ?case by (simp add: Let_def)
qed simp_all

lemma zero_path_all_equal:
  "calculateTotalDistance s = 0 \<Longrightarrow> p \<in> set s \<Longrightarrow> p = hd s"
proof (induction s arbitrary: p rule: calculateTotalDistance.induct)
  case (1 a b ps)
  have "distance a b + calculateTotalDistance (b # ps) = 0"
    using "1.prems"(1) by simp
  with distance_nonneg [of a b] calculateTotalDistance_nonneg [of "b # ps"]
  have d: "distance a b = 0" and r: "calculateTotalDistance (b # ps) = 0"
    by linarith+
  from d have "a = b" by (simp add: distance_zero_iff)
  moreover from "1.IH" [OF r] have "q \<in> set (b # ps) \<Longrightarrow> q = b" for q by simp
  ultimately show ?case using "1.prems"(2) by auto
qed auto

lemma all_equal_path: "\<forall>p \<in> set s. p = c \<Longrightarrow> calculateTotalDistance s = 0"
  by (induction s rule: calculateTotalDistance.induct) (simp_all add: distance_zero_iff)

lemma all_equal_width:
  assumes "s \<noteq> []" and "\<forall>p \<in> set s. p = c"
  shows "width (getBoundingBox s) = 0"
proof -
  from assms have "set (map px s) = {px c}" by (cases s) auto
  then show ?thesis by (simp add: getBoundingBox_def Let_def)
qed

lemma zero_radius_all_equal:
  assumes "s \<noteq> []" and "average (map (\<lambda>p. distance c p) s) = 0"
  shows "\<forall>p \<in> set s. p = c"
proof -
  from assms have "sum_list (map (\<lambda>p. distance c p) s) = 0"
    by (simp add: average_def)
  moreover have "\<forall>v \<in> set (map (\<lambda>p. distance c p) s). 0 \<le> v"
    by (auto simp: distance_nonneg)
  ultimately have "\<forall>v \<in> set (map (\<lambda>p. distance c p) s). v = 0"
    using sum_list_nonneg_eq_0_iff [of "map (\<lambda>p. distance c p) s"] by blast
  then show ?thesis by (auto simp: distance_zero_iff)
qed

section \<open>Minimum stroke sizes\<close>

text \<open>
  C10. A stroke of fewer than six points is never a circle and a stroke of fewer than four
  points is never a rectangle, whatever its geometry and whether or not it is closed; the
  same gates stand in the fallback variants of the two predicates.
\<close>

theorem size_gates:
  "(length stroke < 6 \<longrightarrow> \<not> isCircle stroke \<and> \<not> isCircle_fallback stroke) \<and>
   (length stroke < 4 \<longrightarrow> \<not> isRectangle stroke \<and> \<not> isRectangle_fallback stroke)"
  by (simp add: isCircle_def isCircle_fallback_def isRectangle_def isRectangle_fallback_def)

text \<open>The five points of \<open>star5\<close> and a closed triangle of three points are turned away.\<close>

theorem size_gates_witness:
  "length star5 < 6 \<and> \<not> isCircle star5 \<and> \<not> isCircle_fallback star5
   \<and> length [Point 0 0, Point 1 1, Point 0 1] < 4
   \<and> \<not> isRectangle [Point 0 0, Point 1 1, Point 0 1]
   \<and> \<not> isRectangle_fallback [Point 0 0, Point 1 1, Point 0 1]"
  using size_gates [of star5] size_gates [of "[Point 0 0, Point 1 1, Point 0 1]"]
  by (simp add: star5_def)

section \<open>The rectangle predicate\<close>

text \<open>
  C6. The rectangle predicate of \<open>GridCanvas.js\<close> holds exactly when the stroke is closed
  (its first and last point are less than 10 units apart), \<open>findCorners\<close> keeps at least
  two corners, and the quotient of the width by the height of the bounding box is above
  0.2 and below 5.0. The length test of the code takes nothing away from this: a stroke of
  fewer than four points has at most one interior point and so fewer than two corners. A
  bounding box of height zero gives an infinite quotient or \<open>NaN\<close>, which fails one of
  the two comparisons.
\<close>

theorem rectangle_iff:
  "isRectangle stroke =
     (distance (hd stroke) (last stroke) < THRESHOLD
      \<and> 2 \<le> length (findCorners stroke)
      \<and> jsgt (jsdiv (width (getBoundingBox stroke)) (height (getBoundingBox stroke))) 0.2
      \<and> jslt (jsdiv (width (getBoundingBox stroke)) (height (getBoundingBox stroke))) 5.0)"
proof (cases "length stroke < 4")
  case True
  with findCorners_length [of stroke] have "\<not> 2 \<le> length (findCorners stroke)" by linarith
  with True show ?thesis by (simp add: isRectangle_def)
next
  case False
  then show ?thesis by (auto simp: isRectangle_def Let_def)
qed

lemma nearSquare_corners: "length (findCorners nearSquare) = 3"
  using pi_gt_zero by (simp add: nearSquare_def atan2_def Let_def)

text \<open>The near-closed square of the specification is a rectangle: closed, three corners.\<close>

theorem rectangle_iff_witness: "isRectangle nearSquare"
  using rectangle_iff [of nearSquare] nearSquare_corners
  by (simp add: nearSquare_def THRESHOLD_def distance_def getBoundingBox_def jsdiv_def)

text \<open>
  The fallback variant kept by the OpenCV canvases has no corner test: it accepts
  \<open>spike\<close>, which has a single corner.
\<close>

lemma spike_corners: "length (findCorners spike) = 1"
  using pi_gt_zero by (simp add: spike_def atan2_def Let_def arctan_one)

lemma fallback_rectangle_ignores_corners:
  "isRectangle_fallback spike \<and> \<not> isRectangle spike"
  using spike_corners [unfolded spike_def]
  by (simp add: isRectangle_fallback_def isRectangle_def spike_def THRESHOLD_def distance_def
      getBoundingBox_def jsdiv_def Let_def)

section \<open>The circle predicate\<close>

text \<open>
  The five points of \<open>star5\<close> are closed, their distances to the centroid have variance
  0.16 and mean 0.8, and their bounding box is square; yet the predicate rejects them,
  because it rejects every stroke of fewer than six points.
\<close>

theorem circle_iff_counterexample:
  "\<not> isCircle star5
   \<and> distance (hd star5) (last star5) < THRESHOLD
   \<and> jslt (jsdiv (calculateVariance (map (\<lambda>p. distance (calculateCenter star5) p) star5))
                  (average (map (\<lambda>p. distance (calculateCenter star5) p) star5))) 0.5
   \<and> jsgt (jsdiv (width (getBoundingBox star5)) (height (getBoundingBox star5))) 0.5
   \<and> jslt (jsdiv (width (getBoundingBox star5)) (height (getBoundingBox star5))) 2.0"
  by (simp add: isCircle_def star5_def THRESHOLD_def distance_def calculateCenter_def
      calculateVariance_def average_def getBoundingBox_def jsdiv_def Let_def power2_eq_square)

text \<open>
  C7, amended. For a stroke of at least six points the circle predicate of
  \<open>GridCanvas.js\<close> holds exactly when the stroke is closed (first and last point less
  than 10 units apart), the population variance of the distances to the centroid divided
  by their mean is below 0.5, and the quotient of the width by the height of the bounding
  box is above 0.5 and below 2.0. A mean of zero, which the code tests before it divides,
  gives \<open>NaN\<close> or an infinite quotient here and fails the comparison as well.
\<close>

theorem circle_iff_from_six_points:
  assumes "6 \<le> length stroke"
  shows "isCircle stroke =
     (distance (hd stroke) (last stroke) < THRESHOLD
      \<and> jslt (jsdiv (calculateVariance (map (\<lambda>p. distance (calculateCenter stroke) p) stroke))
                     (average (map (\<lambda>p. distance (calculateCenter stroke) p) stroke))) 0.5
      \<and> jsgt (jsdiv (width (getBoundingBox stroke)) (height (getBoundingBox stroke))) 0.5
      \<and> jslt (jsdiv (width (getBoundingBox stroke)) (height (getBoundingBox stroke))) 2.0)"
proof (cases "average (map (\<lambda>p. distance (calculateCenter stroke) p) stroke) = 0")
  case True
  with assms jslt_jsdiv_zero_nonneg [OF calculateVariance_nonneg] show ?thesis
    by (simp add: isCircle_def Let_def)
next
  case False
  with assms show ?thesis by (auto simp: isCircle_def Let_def)
qed

text \<open>The six points of \<open>ring\<close> are a circle.\<close>

theorem circle_iff_witness: "6 \<le> length ring \<and> isCircle ring"
  using circle_iff_from_six_points [of ring]
  by (simp add: ring_def THRESHOLD_def distance_def calculateCenter_def
      calculateVariance_def average_def getBoundingBox_def jsdiv_def Let_def)

section \<open>Degenerate strokes\<close>

lemma flat_not_rectangle:
  "width (getBoundingBox s) = 0 \<or> height (getBoundingBox s) = 0 \<Longrightarrow> \<not> isRectangle s"
  by (auto simp: isRectangle_def Let_def jsdiv_def split: if_splits)

lemma flat_not_circle:
  "width (getBoundingBox s) = 0 \<or> height (getBoundingBox s) = 0 \<Longrightarrow> \<not> isCircle s"
  by (auto simp: isCircle_def Let_def jsdiv_def split: if_splits)

lemma all_equal_degenerate:
  assumes "\<forall>p \<in> set s. p = c"
  shows "\<not> isLine s \<and> \<not> isRectangle s \<and> \<not> isCircle s"
proof (cases "s = []")
  case True
  then show ?thesis by (simp add: isLine_def isRectangle_def isCircle_def)
next
  case False
  from all_equal_width [OF False assms] have "\<not> isRectangle s" "\<not> isCircle s"
    by (simp_all add: flat_not_rectangle flat_not_circle)
  moreover from all_equal_path [OF assms] have "\<not> isLine s"
    by (simp add: isLine_def)
  ultimately show ?thesis by simp
qed

text \<open>
  A straight horizontal stroke has a bounding box of height zero and is a line. And on a
  closed stroke that stays on one horizontal, \<open>isRectangle\<close> divides the width by a height
  of zero.
\<close>

theorem degenerate_strokes_counterexample:
  "height (getBoundingBox flatLine) = 0 \<and> isLine flatLine
   \<and> (''aspectRatio'', 0) \<in> set (isRectangle_divisions flatLoop)"
  by (simp add: flatLine_def flatLoop_def getBoundingBox_def isLine_def distance_def jsdiv_def
      isRectangle_divisions_def THRESHOLD_def Let_def)

text \<open>
  C5, amended. A stroke (of at least one point) of path length zero or of average radius
  zero matches none of \<open>isLine\<close>, \<open>isRectangle\<close>, \<open>isCircle\<close>. A stroke whose bounding
  box has width zero or height zero matches neither \<open>isRectangle\<close> nor \<open>isCircle\<close> (it
  may be a line). Every division of \<open>isLine\<close> has a denominator other than zero, and so
  has every division of \<open>isCircle\<close> except the one for the aspect ratio: the path length
  and the average radius are tested before the code divides by them.
\<close>

theorem degenerate_strokes:
  "(s \<noteq> [] \<and> (calculateTotalDistance s = 0
      \<or> average (map (\<lambda>p. distance (calculateCenter s) p) s) = 0)
        \<longrightarrow> \<not> isLine s \<and> \<not> isRectangle s \<and> \<not> isCircle s)
   \<and> (s \<noteq> [] \<and> (width (getBoundingBox s) = 0 \<or> height (getBoundingBox s) = 0)
        \<longrightarrow> \<not> isRectangle s \<and> \<not> isCircle s)
   \<and> (\<forall>(q, d) \<in> set (isLine_divisions s). d \<noteq> 0)
   \<and> (\<forall>(q, d) \<in> set (isCircle_divisions s). q \<noteq> ''aspectRatio'' \<longrightarrow> d \<noteq> 0)"
proof -
  have coincide: "\<not> isLine s \<and> \<not> isRectangle s \<and> \<not> isCircle s"
    if ne: "s \<noteq> []"
      and "calculateTotalDistance s = 0
        \<or> average (map (\<lambda>p. distance (calculateCenter s) p) s) = 0"
    using that(2)
  proof
    assume "calculateTotalDistance s = 0"
    then have "\<forall>p \<in> set s. p = hd s" by (simp add: zero_path_all_equal)
    then show ?thesis by (rule all_equal_degenerate)
  next
    assume z: "average (map (\<lambda>p. distance (calculateCenter s) p) s) = 0"
    from zero_radius_all_equal [OF ne z] show ?thesis by (rule all_equal_degenerate)
  qed
  have flat: "\<not> isRectangle s \<and> \<not> isCircle s"
    if "width (getBoundingBox s) = 0 \<or> height (getBoundingBox s) = 0"
    using that by (simp add: flat_not_rectangle flat_not_circle)
  have line_guard: "\<forall>(q, d) \<in> set (isLine_divisions s). d \<noteq> 0"
    by (simp add: isLine_divisions_def Let_def)
  have circle_guard:
    "\<forall>(q, d) \<in> set (isCircle_divisions s). q \<noteq> ''aspectRatio'' \<longrightarrow> d \<noteq> 0"
    by (auto simp: isCircle_divisions_def Let_def split: if_splits)
  from coincide flat line_guard circle_guard show ?thesis by blast
qed

text \<open>
  \<open>flatLoop\<close> has height zero and is neither rectangle nor circle; two equal points have
  path length zero and are no line; \<open>isLine\<close> divides by the path length 1 on
  \<open>flatLine\<close>, and \<open>isCircle\<close> by the average radius 1 on \<open>ring\<close>.
\<close>

theorem degenerate_strokes_witness:
  "flatLoop \<noteq> [] \<and> height (getBoundingBox flatLoop) = 0
   \<and> \<not> isRectangle flatLoop \<and> \<not> isCircle flatLoop
   \<and> calculateTotalDistance [Point 2 3, Point 2 3] = 0 \<and> \<not> isLine [Point 2 3, Point 2 3]
   \<and> isLine_divisions flatLine = [(''ratio'', 1)]
   \<and> (''circularity'', 1) \<in> set (isCircle_divisions ring)"
  using degenerate_strokes [of flatLoop] degenerate_strokes [of "[Point 2 3, Point 2 3]"]
  by (simp add: flatLine_def flatLoop_def ring_def getBoundingBox_def distance_def
      isLine_divisions_def isCircle_divisions_def calculateCenter_def average_def
      THRESHOLD_def Let_def)

section \<open>The contour classifier\<close>

lemma getVertices_id: "getVertices approx = approx"
  by (simp add: getVertices_def map_nth)

text \<open>
  C8. \<open>classifyShape\<close> takes the polygon that approximates the contour within 2 percent
  of its perimeter. Three vertices give a triangle with these vertices, four a rectangle
  with these vertices. For any other count it computes \<open>4\<pi> \<sqdot> area / perimeter\<^sup>2\<close> and
  returns the circle of \<open>minEnclosingCircle\<close> exactly when that quotient exceeds 0.85;
  otherwise the shape is unknown, and \<open>detectShapes\<close> keeps no unknown shape.
\<close>

theorem contour_classes:
  "(length (approxPolyDP cv contour (0.02 * arcLength cv contour)) = 3 \<longrightarrow>
      classifyShape cv contour = Triangle (approxPolyDP cv contour (0.02 * arcLength cv contour)))
   \<and> (length (approxPolyDP cv contour (0.02 * arcLength cv contour)) = 4 \<longrightarrow>
      classifyShape cv contour =
        Rectangle (approxPolyDP cv contour (0.02 * arcLength cv contour)) (boundingRect cv contour))
   \<and> (length (approxPolyDP cv contour (0.02 * arcLength cv contour)) \<noteq> 3
      \<and> length (approxPolyDP cv contour (0.02 * arcLength cv contour)) \<noteq> 4 \<longrightarrow>
      classifyShape cv contour =
        (if jsgt (jsdiv (4 * pi * contourArea cv contour)
                        (arcLength cv contour * arcLength cv contour)) 0.85
         then Circle (fst (minEnclosingCircle cv contour)) (snd (minEnclosingCircle cv contour))
         else Unknown))
   \<and> Unknown \<notin> set (detectShapes cv canvas)"
  by (auto simp add: classifyShape_def detectShapes_def getVertices_id Let_def
      split: prod.splits option.splits)

text \<open>
  The four contours of \<open>demoCv\<close>: a triangle, a rectangle, a disc (quotient 1) and a
  sliver (quotient \<open>\<pi> / 36\<close>), which is dropped.
\<close>

theorem contour_classes_witness:
  "classifyShape demoCv 0 = Triangle [Point 0 0, Point 4 0, Point 0 3]
   \<and> classifyShape demoCv 1
       = Rectangle [Point 0 0, Point 3 0, Point 3 3, Point 0 3] (CvRect 0 0 3 3)
   \<and> classifyShape demoCv 2 = Circle (Point 0 0) 1
   \<and> classifyShape demoCv 3 = Unknown
   \<and> detectShapes demoCv 3 = []"
  using contour_classes [of demoCv 0 0] contour_classes [of demoCv 1 0]
    contour_classes [of demoCv 2 0] contour_classes [of demoCv 3 3] pi_less_4 pi_gt_zero
  by (simp add: demoCv_def jsdiv_def detectShapes_def)

section \<open>The orchestrator: lines first, and what is left without OpenCV\<close>

text \<open>
  C1. A stroke of at least two points and positive path length whose straightness (the
  distance from its first to its last point, divided by the path length) exceeds 0.9 is
  classified as a line, whatever the collaborators would answer: \<open>detectShape\<close> returns
  the line that carries the stroke after calling \<open>isLine\<close> and no other classifier, and
  \<open>drawCleanShape\<close> draws that line from the first point of the stroke to its last.
\<close>

theorem line_short_circuit:
  assumes "2 \<le> length stroke"
    and "0 < calculateTotalDistance stroke"
    and "0.9 < distance (hd stroke) (last stroke) / calculateTotalDistance stroke"
  shows "detectShape cv stroke = (Line stroke, [CallIsLine])
       \<and> drawCleanShape (Line stroke)
           = Some [StrokeStyle ''#ff0000'', LineWidth 3, BeginPath,
                   MoveTo (px (hd stroke)) (py (hd stroke)),
                   LineTo (px (last stroke)) (py (last stroke)),
                   Stroke, StrokeStyle ''#000000'', LineWidth 2]"
proof -
  from assms have "isLine stroke"
    by (simp add: isLine_def jsdiv_def Let_def)
  moreover from assms(1) have "stroke \<noteq> []" by auto
  ultimately show ?thesis
    by (simp add: detectShape_def drawCleanShape_def hd_conv_nth last_conv_nth)
qed

text \<open>\<open>flatLine\<close> has straightness 1.\<close>

theorem line_short_circuit_witness:
  "2 \<le> length flatLine \<and> 0 < calculateTotalDistance flatLine
   \<and> 0.9 < distance (hd flatLine) (last flatLine) / calculateTotalDistance flatLine
   \<and> detectShape demoCv flatLine = (Line flatLine, [CallIsLine])
   \<and> drawCleanShape (Line flatLine)
       = Some [StrokeStyle ''#ff0000'', LineWidth 3, BeginPath, MoveTo 0 0, LineTo 1 0,
               Stroke, StrokeStyle ''#000000'', LineWidth 2]"
  using line_short_circuit [of flatLine demoCv]
  by (simp add: flatLine_def distance_def)

text \<open>
  In the fallback of \<open>part_002\<close> the rectangle test comes first and accepts every stroke
  that the circle test accepts, so the fallback never answers with a circle.
\<close>

lemma circle_fallback_is_rectangle_fallback:
  "isCircle_fallback s \<Longrightarrow> isRectangle_fallback s"
  by (cases "jsdiv (width (getBoundingBox s)) (height (getBoundingBox s))")
     (auto simp: isCircle_fallback_def isRectangle_fallback_def Let_def split: if_splits)

lemma detectShapeFallback_no_circle: "typeOf (detectShapeFallback s) \<noteq> ''circle''"
  using circle_fallback_is_rectangle_fallback [of s]
  by (auto simp: detectShapeFallback_def Let_def)

text \<open>
  In the final canvas, a stroke that is no line is freehand whenever OpenCV cannot be
  called.
\<close>

lemma detectShape_without_opencv:
  assumes "\<not> isLine s" and "\<And>i. findContours cv i = None"
  shows "fst (detectShape cv s) = Freehand"
  using assms by (simp add: detectShape_def detectShapes_def split: option.splits)

text \<open>
  C3. The stroke \<open>ring\<close> is closed, round (the circle predicates of \<open>GridCanvas.js\<close> and
  of the fallback both accept it) and no line. With OpenCV not loaded the final canvas
  classifies it as freehand: after the line test \<open>detectShape\<close> calls no heuristic. The
  canvas of \<open>part_002\<close> falls back to its heuristics and classifies it as a rectangle.
  Neither classifies it as a circle.
\<close>

theorem no_circle_without_opencv:
  "isCircle ring \<and> isCircle_fallback ring \<and> \<not> isLine ring
   \<and> fst (detectShape unavailable ring) = Freehand
   \<and> detectShape_part002 unavailable False ring = FallbackRectangle (getBoundingBox ring)"
  by (simp add: isCircle_def isCircle_fallback_def isLine_def detectShape_def
      detectShape_part002_def detectShapeFallback_def isRectangle_fallback_def
      detectShapes_def unavailable_def ring_def THRESHOLD_def distance_def
      calculateCenter_def calculateVariance_def average_def getBoundingBox_def jsdiv_def
      Let_def)

section \<open>The handlers and the list of recognized shapes\<close>

lemma classifyShape_drawable: "drawCleanShape (classifyShape cv c) \<noteq> None"
  by (auto simp: classifyShape_def drawCleanShape_def polygonPath_def getVertices_id Let_def
           split: prod.splits list.splits option.splits)

lemma isLine_nonempty: "isLine s \<Longrightarrow> s \<noteq> []"
  by (auto simp: isLine_def)

lemma detectShapes_drawable: "sh \<in> set (detectShapes cv i) \<Longrightarrow> drawCleanShape sh \<noteq> None"
  using classifyShape_drawable [of cv]
  by (auto simp: detectShapes_def split: option.splits)

lemma detectShape_drawable: "drawCleanShape (fst (detectShape cv s)) \<noteq> None"
proof (cases "isLine s")
  case True
  then show ?thesis
    by (simp add: detectShape_def drawCleanShape_def isLine_nonempty)
next
  case False
  show ?thesis
  proof (cases "tempCanvas cv s")
    case None
    with False show ?thesis by (simp add: detectShape_def drawCleanShape_def)
  next
    case (Some i)
    show ?thesis
    proof (cases "detectShapes cv i")
      case Nil
      with False Some show ?thesis by (simp add: detectShape_def drawCleanShape_def)
    next
      case (Cons a as)
      then have "a \<in> set (detectShapes cv i)" by simp
      then have "drawCleanShape a \<noteq> None" by (rule detectShapes_drawable)
      with False Some Cons show ?thesis by (simp add: detectShape_def)
    qed
  qed
qed

lemma those_drawable:
  "list_all (\<lambda>sh. drawCleanShape sh \<noteq> None) shs \<Longrightarrow>
     those (map drawCleanShape shs) = Some (map (\<lambda>sh. the (drawCleanShape sh)) shs)"
  by (induction shs) auto

lemma foldl_moves:
  "isDrawing st \<Longrightarrow>
     foldl handleMouseMove st ps =
       st\<lparr> currentStroke := currentStroke st @ ps,
           drawn := drawn st @ concat (map (\<lambda>q. [LineTo (px q) (py q), Stroke]) ps) \<rparr>"
proof (induction ps arbitrary: st)
  case Nil
  then show ?case by simp
next
  case (Cons q qs)
  have "isDrawing (handleMouseMove st q)"
    using Cons.prems by (simp add: handleMouseMove_def)
  from Cons.IH [OF this] Cons.prems show ?case
    by (simp add: handleMouseMove_def)
qed

lemma after_moves:
  "foldl handleMouseMove (handleMouseDown st p) ps =
     st\<lparr> isDrawing := True, currentStroke := p # ps, drawn := drawn st @ ink (Gesture p ps) \<rparr>"
proof -
  have "isDrawing (handleMouseDown st p)" by (simp add: handleMouseDown_def)
  from foldl_moves [OF this] show ?thesis
    by (simp add: handleMouseDown_def)
qed

text \<open>What one gesture does to a state whose recognized shapes can all be drawn.\<close>

lemma runGesture_result:
  assumes "list_all (\<lambda>sh. drawCleanShape sh \<noteq> None) (recognizedShapes st)"
  shows "runGesture cv st g =
     Some (if recognized cv g
           then st\<lparr> drawn := drawn st @ ink g
                      @ [ClearRect 0 0 (windowWidth cv) (windowHeight cv)]
                      @ drawGrid (windowWidth cv) (windowHeight cv)
                      @ concat (map (\<lambda>sh. the (drawCleanShape sh))
                                 (recognizedShapes st @ [fst (detectShape cv (strokeOf g))])),
                   recognizedShapes := recognizedShapes st @ [fst (detectShape cv (strokeOf g))],
                   consulted := consulted st @ snd (detectShape cv (strokeOf g)),
                   isDrawing := False, currentStroke := [] \<rparr>
           else st\<lparr> drawn := drawn st @ ink g,
                   consulted := consulted st
                      @ (if 1 < length (strokeOf g) then snd (detectShape cv (strokeOf g)) else []),
                   isDrawing := False, currentStroke := [] \<rparr>)"
proof (cases g)
  case (Gesture p ps)
  obtain sh calls where d: "detectShape cv (p # ps) = (sh, calls)"
    by (cases "detectShape cv (p # ps)")
  have dr: "drawCleanShape sh \<noteq> None"
    using detectShape_drawable [of cv "p # ps"] d by simp
  then obtain fresh where fresh: "drawCleanShape sh = Some fresh" by auto
  show ?thesis
    using d fresh those_drawable [OF assms]
    by (simp add: Gesture after_moves handleMouseUp_def recognized_def drawRecognizedShape_def)
qed

lemma runGesture_ledger:
  assumes "ledgerOk (recognizedShapes st)"
  shows "\<exists>st'. runGesture cv st g = Some st'
           \<and> ledgerOk (recognizedShapes st')
           \<and> recognizedShapes st' = recognizedShapes st
                @ map (\<lambda>g. fst (detectShape cv (strokeOf g))) (filter (recognized cv) [g])"
proof -
  from assms have "list_all (\<lambda>sh. drawCleanShape sh \<noteq> None) (recognizedShapes st)"
    by (simp add: ledgerOk_def)
  from runGesture_result [OF this, of cv g] assms detectShape_drawable [of cv "strokeOf g"]
  show ?thesis
    by (auto simp: ledgerOk_def recognized_def)
qed

lemma runGestures_ledger:
  assumes "ledgerOk (recognizedShapes st)"
  shows "\<exists>st'. runGestures cv st gs = Some st'
           \<and> ledgerOk (recognizedShapes st')
           \<and> recognizedShapes st' = recognizedShapes st
                @ map (\<lambda>g. fst (detectShape cv (strokeOf g))) (filter (recognized cv) gs)"
  using assms
proof (induction gs arbitrary: st)
  case Nil
  then show ?case by simp
next
  case (Cons g gs)
  from runGesture_ledger [OF Cons.prems, of cv g] obtain st1 where
    s1: "runGesture cv st g = Some st1" and ok1: "ledgerOk (recognizedShapes st1)"
    and l1: "recognizedShapes st1 = recognizedShapes st
                @ map (\<lambda>g. fst (detectShape cv (strokeOf g))) (filter (recognized cv) [g])"
    by blast
  from Cons.IH [OF ok1] obtain st2 where
    s2: "runGestures cv st1 gs = Some st2" and ok2: "ledgerOk (recognizedShapes st2)"
    and l2: "recognizedShapes st2 = recognizedShapes st1
                @ map (\<lambda>g. fst (detectShape cv (strokeOf g))) (filter (recognized cv) gs)"
    by blast
  from s1 s2 ok2 l1 l2 show ?case by simp
qed

lemma initial_ledgerOk: "ledgerOk (recognizedShapes (initialCanvas cv))"
  by (simp add: ledgerOk_def initialCanvas_def)

lemma lineGesture_recognized: "recognized unavailable lineGesture"
  by (simp add: recognized_def lineGesture_def detectShape_def isLine_def distance_def jsdiv_def)

text \<open>
  C9. When the mouse is released on a stroke of fewer than two points, the handler only
  resets \<open>isDrawing\<close> and \<open>currentStroke\<close>: no classifier is called, nothing is drawn and
  the list of recognized shapes stays as it was; the handler ends normally. For the whole
  gesture of a press and a release, the only trace is the start of the rough path.
\<close>

theorem short_stroke_discarded:
  "(length (currentStroke st) < 2 \<longrightarrow>
      handleMouseUp cv st = Some (st\<lparr> isDrawing := False, currentStroke := [] \<rparr>))
   \<and> runGesture cv st (Gesture p []) =
       Some (st\<lparr> drawn := drawn st @ [BeginPath, MoveTo (px p) (py p)],
                 isDrawing := False, currentStroke := [] \<rparr>)"
  by (simp add: handleMouseUp_def handleMouseDown_def)

text \<open>A press at (3, 4) on the fresh canvas, released at once, gives the fresh canvas back.\<close>

theorem short_stroke_discarded_witness:
  "length (currentStroke
      ((initialCanvas demoCv)\<lparr> isDrawing := True, currentStroke := [Point 3 4] \<rparr>)) < 2
   \<and> handleMouseUp demoCv
        ((initialCanvas demoCv)\<lparr> isDrawing := True, currentStroke := [Point 3 4] \<rparr>)
       = Some (initialCanvas demoCv)"
  using short_stroke_discarded
    [of "(initialCanvas demoCv)\<lparr> isDrawing := True, currentStroke := [Point 3 4] \<rparr>" demoCv]
  by (simp add: initialCanvas_def)

text \<open>
  C2. Starting from the freshly mounted canvas, any sequence of completed strokes is
  handled without an exception, and afterwards the list of recognized shapes has one entry
  for each stroke that was classified as something other than freehand, and none for the
  strokes classified as freehand (nor for those too short to be classified): its length is
  the number of recognized strokes, and no entry has the type freehand.
\<close>

theorem freehand_never_in_ledger:
  "case runGestures cv (initialCanvas cv) gs of
     None \<Rightarrow> False
   | Some st \<Rightarrow>
       length (recognizedShapes st) = length (filter (recognized cv) gs)
       \<and> list_all (\<lambda>sh. typeOf sh \<noteq> ''freehand'') (recognizedShapes st)"
proof -
  from runGestures_ledger [where st = "initialCanvas cv" and cv = cv and gs = gs,
      OF initial_ledgerOk] obtain st where
    "runGestures cv (initialCanvas cv) gs = Some st" "ledgerOk (recognizedShapes st)"
    "recognizedShapes st = recognizedShapes (initialCanvas cv)
        @ map (\<lambda>g. fst (detectShape cv (strokeOf g))) (filter (recognized cv) gs)"
    by blast
  then show ?thesis by (simp add: ledgerOk_def initialCanvas_def)
qed

text \<open>
  Without OpenCV, a line, then the round stroke (freehand), then a single point: one
  entry.
\<close>

theorem freehand_never_in_ledger_witness:
  "recognized unavailable lineGesture \<and> \<not> recognized unavailable ringGesture
   \<and> \<not> recognized unavailable dotGesture
   \<and> (case runGestures unavailable (initialCanvas unavailable)
              [lineGesture, ringGesture, dotGesture] of
        None \<Rightarrow> False
      | Some st \<Rightarrow> length (recognizedShapes st) = 1
          \<and> list_all (\<lambda>sh. typeOf sh \<noteq> ''freehand'') (recognizedShapes st))"
proof -
  have b: "\<not> recognized unavailable ringGesture"
    by (simp add: recognized_def ringGesture_def detectShape_def isLine_def distance_def jsdiv_def
        unavailable_def detectShapes_def)
  have c: "\<not> recognized unavailable dotGesture"
    by (simp add: recognized_def dotGesture_def)
  have n: "length (filter (recognized unavailable) [lineGesture, ringGesture, dotGesture]) = 1"
    using lineGesture_recognized b c by simp
  note run = freehand_never_in_ledger [of unavailable "[lineGesture, ringGesture, dotGesture]",
      unfolded n]
  show ?thesis by (intro conjI lineGesture_recognized b c run)
qed

text \<open>
  C4. After any sequence of completed strokes on the freshly mounted canvas, a further
  stroke that is recognized makes the release handler issue, after the rough trail of the
  stroke itself, exactly these calls on the canvas: \<open>clearRect\<close> over the whole window,
  the calls of \<open>drawGrid\<close>, the calls of \<open>drawCleanShape\<close> for every shape recognized
  before, in the order of recognition, and the calls of \<open>drawCleanShape\<close> for the new
  shape; none of these throws.
\<close>

theorem recognition_repaints:
  assumes "recognized cv g"
  shows "\<exists>st st' redrawn fresh.
           runGestures cv (initialCanvas cv) gs = Some st
         \<and> runGesture cv st g = Some st'
         \<and> map drawCleanShape (recognizedShapes st) = map Some redrawn
         \<and> drawCleanShape (fst (detectShape cv (strokeOf g))) = Some fresh
         \<and> drawn st' = drawn st @ ink g
              @ [ClearRect 0 0 (windowWidth cv) (windowHeight cv)]
              @ drawGrid (windowWidth cv) (windowHeight cv)
              @ concat redrawn @ fresh"
proof -
  from runGestures_ledger [where st = "initialCanvas cv" and cv = cv and gs = gs,
      OF initial_ledgerOk] obtain st where
    run: "runGestures cv (initialCanvas cv) gs = Some st" and ok: "ledgerOk (recognizedShapes st)"
    by blast
  from ok have dr: "list_all (\<lambda>sh. drawCleanShape sh \<noteq> None) (recognizedShapes st)"
    by (simp add: ledgerOk_def)
  let ?redrawn = "map (\<lambda>sh. the (drawCleanShape sh)) (recognizedShapes st)"
  let ?new = "fst (detectShape cv (strokeOf g))"
  from dr have m: "map drawCleanShape (recognizedShapes st) = map Some ?redrawn"
    by (induction "recognizedShapes st") (auto simp: list_all_iff)
  have f: "drawCleanShape ?new = Some (the (drawCleanShape ?new))"
    using detectShape_drawable [of cv "strokeOf g"] by auto
  from runGesture_result [OF dr, of cv g] assms obtain st' where
    up: "runGesture cv st g = Some st'"
    and d: "drawn st' = drawn st @ ink g
              @ [ClearRect 0 0 (windowWidth cv) (windowHeight cv)]
              @ drawGrid (windowWidth cv) (windowHeight cv)
              @ concat ?redrawn @ the (drawCleanShape ?new)"
    by simp
  from run up m f d show ?thesis by blast
qed

text \<open>A second line after a line and a freehand stroke.\<close>

theorem recognition_repaints_witness:
  "recognized unavailable lineGesture
   \<and> (\<exists>st st' redrawn fresh.
           runGestures unavailable (initialCanvas unavailable) [lineGesture, ringGesture] = Some st
         \<and> runGesture unavailable st lineGesture = Some st'
         \<and> map drawCleanShape (recognizedShapes st) = map Some redrawn
         \<and> drawCleanShape (fst (detectShape unavailable (strokeOf lineGesture))) = Some fresh
         \<and> drawn st' = drawn st @ ink lineGesture
              @ [ClearRect 0 0 (windowWidth unavailable) (windowHeight unavailable)]
              @ drawGrid (windowWidth unavailable) (windowHeight unavailable)
              @ concat redrawn @ fresh)"
  using lineGesture_recognized
    recognition_repaints [OF lineGesture_recognized, of "[lineGesture, ringGesture]"]
  by blast

end
